theory Spec2Isabelle
  imports Main
begin

section \<open>Values and exceptions of the JavaScript runtime\<close>

text \<open>
  The front end is TypeScript over the browser platform. Values that the source types
  as \<open>any\<close> (parsed frames, outbound messages, response bodies) are JSON values; an
  object is the list of its own properties in insertion order, with distinct keys.
  The number type is a parameter: the source only carries numbers around.
\<close>

datatype 'n json =
    JNull
  | JBool bool
  | JNum 'n
  | JStr string
  | JArr "'n json list"
  | JObj "(string \<times> 'n json) list"

text \<open>
  The exceptions the modelled code can raise: \<open>new Error(msg)\<close> of \<open>api.ts\<close>, the
  \<open>SyntaxError\<close> of \<open>JSON.parse\<close> and \<open>Response.json\<close>, the \<open>TypeError\<close> of a
  property read on \<open>null\<close> or of a call of something that is not a function, and the
  \<open>InvalidStateError\<close> of \<open>WebSocket.send\<close>. \<open>SyntaxError\<close> is also what the
  \<open>WebSocket\<close> constructor throws on a URL it refuses. \<open>Invalid_child\<close> is the error
  React throws when an object is rendered as a child of an element.
\<close>

datatype exn = Error string | SyntaxError | TypeError | InvalidStateError | Invalid_child

text \<open>
  A handler that mutates component state and may throw half way: the state it leaves
  behind is kept in both cases.
\<close>

datatype 's outcome = Returns 's | Throws exn 's

text \<open>
  Property read \<open>v.k\<close> (and the destructuring \<open>const { k } = v\<close>): \<open>None\<close> is
  \<open>undefined\<close>. Reading from \<open>null\<close> throws; the keys the source reads are own
  properties of objects only, so every other value yields \<open>undefined\<close>.
\<close>

fun get_prop :: "'n json \<Rightarrow> string \<Rightarrow> exn + 'n json option" where
  "get_prop JNull k = Inl TypeError"
| "get_prop (JObj kvs) k = Inr (map_of kvs k)"
| "get_prop v k = Inr None"

text \<open>Evaluating in order: the results of all, or the first exception.\<close>

fun sequence :: "(exn + 'a) list \<Rightarrow> exn + 'a list" where
  "sequence [] = Inr []"
| "sequence (r # rs) =
     (case r of
        Inl e \<Rightarrow> Inl e
      | Inr x \<Rightarrow> (case sequence rs of Inl e \<Rightarrow> Inl e | Inr xs \<Rightarrow> Inr (x # xs)))"

section \<open>React state hooks\<close>

text \<open>
  \<open>const [s, setS] = useState(init)\<close>. The setter takes a \<open>SetStateAction\<close>: a new
  value, or an updater function of the previous state. Calling the setter appends the
  action to the hook's queue and returns normally, whatever the updater would do: React
  runs the queued actions in order when it next renders the component, and an updater
  that throws there makes the render throw. (Where React evaluates an updater ahead of
  time inside the setter, it swallows what the updater throws and runs the updater again
  in the render.)
\<close>

datatype 's action = Value 's | Updater "'s \<Rightarrow> exn + 's"

record 's hook =
  current :: 's
  pending :: "'s action list"

definition useState :: "'s \<Rightarrow> 's hook" where
  "useState init = \<lparr>current = init, pending = []\<rparr>"

definition setState :: "'s hook \<Rightarrow> 's action \<Rightarrow> 's hook" where
  "setState h a = h\<lparr>pending := pending h @ [a]\<rparr>"

fun apply_action :: "'s action \<Rightarrow> 's \<Rightarrow> exn + 's" where
  "apply_action (Value v) s = Inr v"
| "apply_action (Updater f) s = f s"

fun process_queue :: "'s action list \<Rightarrow> 's \<Rightarrow> exn + 's" where
  "process_queue [] s = Inr s"
| "process_queue (a # as) s =
     (case apply_action a s of Inl e \<Rightarrow> Inl e | Inr s' \<Rightarrow> process_queue as s')"

definition render_hook :: "'s hook \<Rightarrow> exn + 's hook" where
  "render_hook h =
     (case process_queue (pending h) (current h) of
        Inl e \<Rightarrow> Inl e
      | Inr s \<Rightarrow> Inr \<lparr>current = s, pending = []\<rparr>)"

section \<open>Session bootstrap: \<open>lib/api.ts\<close>\<close>

text \<open>
  \<open>fetch\<close> is a parameter: it maps the request to the response the backend gives, or
  rejects. \<open>r.ok\<close> is true exactly for the statuses 200 to 299; \<open>r.text()\<close> is the
  body; \<open>r.json()\<close> parses the body as JSON and rejects with a \<open>SyntaxError\<close> when it is
  not JSON. \<open>JSON.parse\<close> and \<open>JSON.stringify\<close> are parameters as well.
\<close>

record response =
  status :: nat
  body :: string

definition ok :: "response \<Rightarrow> bool" where
  "ok r = (200 \<le> status r \<and> status r \<le> 299)"

datatype 'f request_body = Text_body string | Form_data "(string \<times> 'f) list"

record 'f request =
  url :: string
  http_method :: string
  headers :: "(string \<times> string) list"
  request_body :: "'f request_body"

definition response_json :: "(string \<Rightarrow> 'j option) \<Rightarrow> response \<Rightarrow> exn + 'j" where
  "response_json JSON_parse r =
     (case JSON_parse (body r) of None \<Rightarrow> Inl SyntaxError | Some v \<Rightarrow> Inr v)"

definition p1StartRun ::
  "(string \<Rightarrow> 'j option) \<Rightarrow> ('n json \<Rightarrow> string) \<Rightarrow> ('f request \<Rightarrow> exn + response)
     \<Rightarrow> 'n json \<Rightarrow> exn + 'j" where
  "p1StartRun JSON_parse JSON_stringify fetch payload =
     (case fetch \<lparr>url = ''/api/p1/run'', http_method = ''POST'',
                  headers = [(''Content-Type'', ''application/json'')],
                  request_body = Text_body (JSON_stringify payload)\<rparr> of
        Inl e \<Rightarrow> Inl e
      | Inr r \<Rightarrow>
          if \<not> ok r then Inl (Error (body r))
          else response_json JSON_parse r)"

definition p2CreateSession ::
  "(string \<Rightarrow> 'j option) \<Rightarrow> ('n json \<Rightarrow> string) \<Rightarrow> ('f request \<Rightarrow> exn + response)
     \<Rightarrow> 'n json \<Rightarrow> exn + 'j" where
  "p2CreateSession JSON_parse JSON_stringify fetch payload =
     (case fetch \<lparr>url = ''/api/p2/session'', http_method = ''POST'',
                  headers = [(''Content-Type'', ''application/json'')],
                  request_body = Text_body (JSON_stringify payload)\<rparr> of
        Inl e \<Rightarrow> Inl e
      | Inr r \<Rightarrow>
          if \<not> ok r then Inl (Error (body r))
          else response_json JSON_parse r)"

definition uploadZip ::
  "(string \<Rightarrow> 'j option) \<Rightarrow> ('f request \<Rightarrow> exn + response) \<Rightarrow> 'f \<Rightarrow> exn + 'j" where
  "uploadZip JSON_parse fetch file =
     (case fetch \<lparr>url = ''/api/upload'', http_method = ''POST'', headers = [],
                  request_body = Form_data [(''file'', file)]\<rparr> of
        Inl e \<Rightarrow> Inl e
      | Inr r \<Rightarrow>
          if \<not> ok r then Inl (Error (body r))
          else response_json JSON_parse r)"

section \<open>The run event stream: \<open>lib/stream.ts\<close>\<close>

text \<open>
  The browser's \<open>EventSource\<close>, as far as the helper uses it. \<open>connections\<close> counts the
  requests the object has made to its URL: one when it is constructed, one more for every
  automatic reconnect. The transport signals are those of the platform: the connection
  is announced, a frame arrives, the connection is lost (the platform sets
  \<open>CONNECTING\<close>, fires \<open>error\<close> and arms its reconnect timer) or fails for good (the
  platform sets \<open>CLOSED\<close> and fires \<open>error\<close>), and the reconnect timer elapses (a new
  request, but only when the state is still \<open>CONNECTING\<close>). Nothing is dispatched on an
  object whose state is \<open>CLOSED\<close>.
\<close>

datatype es_state = ES_CONNECTING | ES_OPEN | ES_CLOSED

record EventSource =
  es_url :: string
  readyState :: es_state
  connections :: nat

datatype sse_signal =
    Connected
  | Frame string
  | Connection_lost
  | Connection_failed
  | Retry_elapsed

record 's es_handlers =
  onmessage :: "'s \<Rightarrow> string \<Rightarrow> 's"
  onerror :: "EventSource \<Rightarrow> EventSource"

definition new_EventSource :: "string \<Rightarrow> EventSource" where
  "new_EventSource u = \<lparr>es_url = u, readyState = ES_CONNECTING, connections = 1\<rparr>"

definition es_close :: "EventSource \<Rightarrow> EventSource" where
  "es_close es = es\<lparr>readyState := ES_CLOSED\<rparr>"

fun EventSource_signal ::
  "'s es_handlers \<Rightarrow> EventSource \<times> 's \<Rightarrow> sse_signal \<Rightarrow> EventSource \<times> 's" where
  "EventSource_signal h (es, s) sig =
     (if readyState es = ES_CLOSED then (es, s)
      else case sig of
        Connected \<Rightarrow> (es\<lparr>readyState := ES_OPEN\<rparr>, s)
      | Frame d \<Rightarrow> (es, onmessage h s d)
      | Connection_lost \<Rightarrow> (onerror h (es\<lparr>readyState := ES_CONNECTING\<rparr>), s)
      | Connection_failed \<Rightarrow> (onerror h (es\<lparr>readyState := ES_CLOSED\<rparr>), s)
      | Retry_elapsed \<Rightarrow>
          (if readyState es = ES_CONNECTING
           then es\<lparr>connections := connections es + 1\<rparr> else es, s))"

fun EventSource_signals ::
  "'s es_handlers \<Rightarrow> EventSource \<times> 's \<Rightarrow> sse_signal list \<Rightarrow> EventSource \<times> 's" where
  "EventSource_signals h c [] = c"
| "EventSource_signals h c (sig # sigs) = EventSource_signals h (EventSource_signal h c sig) sigs"

text \<open>
  \<open>p1OpenStream(runId, onEvent)\<close> constructs the object and installs the two handlers;
  it returns the closer \<open>() => es.close()\<close>, here \<open>p1_off\<close>.
\<close>

definition p1OpenStream :: "string \<Rightarrow> ('s \<Rightarrow> string \<Rightarrow> 's) \<Rightarrow> EventSource \<times> 's es_handlers" where
  "p1OpenStream runId onEvent =
     (new_EventSource (''/api/p1/stream/'' @ runId),
      \<lparr>onmessage = onEvent, onerror = es_close\<rparr>)"

definition p1_off :: "EventSource \<Rightarrow> exn + EventSource" where
  "p1_off es = Inr (es_close es)"

section \<open>The interactive channel: \<open>lib/ws.ts\<close>\<close>

text \<open>
  The browser's \<open>WebSocket\<close>, as far as the helper uses it. The constructor throws a
  \<open>SyntaxError\<close> when the URL does not parse or has a fragment. The URLs constructed
  here are \<open>ws://\<close> or \<open>wss://\<close>, the host of the page, a fixed path and the session
  id: the host is one the browser has parsed already and the URL parser fails on no
  path text, so the constructor throws exactly when the text holds a \<open>#\<close>, which starts
  a fragment. \<open>send\<close> throws an
  \<open>InvalidStateError\<close> while the socket is connecting, transmits the frame when it is
  open, and discards it silently when it is closing or closed. \<open>close()\<close> without
  arguments starts the closing handshake of a connecting or open socket and does nothing
  on a closing or closed one; it has no failure.
\<close>

datatype ws_state = WS_CONNECTING | WS_OPEN | WS_CLOSING | WS_CLOSED

record WebSocket =
  ws_url :: string
  ws_readyState :: ws_state
  transmitted :: "string list"

record location =
  protocol :: string
  host :: string

definition new_WebSocket :: "string \<Rightarrow> exn + WebSocket" where
  "new_WebSocket u =
     (if CHR ''#'' \<in> set u then Inl SyntaxError
      else Inr \<lparr>ws_url = u, ws_readyState = WS_CONNECTING, transmitted = []\<rparr>)"

definition ws_send :: "WebSocket \<Rightarrow> string \<Rightarrow> exn + WebSocket" where
  "ws_send ws d =
     (case ws_readyState ws of
        WS_CONNECTING \<Rightarrow> Inl InvalidStateError
      | WS_OPEN \<Rightarrow> Inr (ws\<lparr>transmitted := transmitted ws @ [d]\<rparr>)
      | WS_CLOSING \<Rightarrow> Inr ws
      | WS_CLOSED \<Rightarrow> Inr ws)"

definition ws_close :: "WebSocket \<Rightarrow> WebSocket" where
  "ws_close ws =
     (case ws_readyState ws of
        WS_CONNECTING \<Rightarrow> ws\<lparr>ws_readyState := WS_CLOSING\<rparr>
      | WS_OPEN \<Rightarrow> ws\<lparr>ws_readyState := WS_CLOSING\<rparr>
      | WS_CLOSING \<Rightarrow> ws
      | WS_CLOSED \<Rightarrow> ws)"

text \<open>
  \<open>p2OpenWS(sessionId, onMsg)\<close> constructs the socket (or throws what the constructor
  throws), installs
  \<open>ws.onmessage = (ev) => onMsg(JSON.parse(ev.data))\<close> (\<open>p2_onmessage\<close>: no
  \<open>try\<close> around the parse) and returns the object \<open>{send, close}\<close> (\<open>p2_send\<close>,
  \<open>p2_close\<close>).
\<close>

definition p2OpenWS :: "location \<Rightarrow> string \<Rightarrow> exn + WebSocket" where
  "p2OpenWS loc sessionId =
     new_WebSocket ((if protocol loc = ''https:'' then ''wss'' else ''ws'') @ ''://'' @ host loc
                    @ ''/api/p2/ws/'' @ sessionId)"

definition p2_onmessage ::
  "(string \<Rightarrow> 'm option) \<Rightarrow> ('s \<Rightarrow> 'm \<Rightarrow> exn + 's) \<Rightarrow> 's \<Rightarrow> string \<Rightarrow> exn + 's" where
  "p2_onmessage JSON_parse onMsg s d =
     (case JSON_parse d of None \<Rightarrow> Inl SyntaxError | Some m \<Rightarrow> onMsg s m)"

definition p2_send :: "('m \<Rightarrow> string) \<Rightarrow> WebSocket \<Rightarrow> 'm \<Rightarrow> exn + WebSocket" where
  "p2_send JSON_stringify ws m = ws_send ws (JSON_stringify m)"

definition p2_close :: "WebSocket \<Rightarrow> exn + WebSocket" where
  "p2_close ws = Inr (ws_close ws)"

text \<open>Calling a closure \<open>n\<close> times in a row, stopping at the first exception.\<close>

fun repeatedly :: "nat \<Rightarrow> ('a \<Rightarrow> exn + 'a) \<Rightarrow> 'a \<Rightarrow> exn + 'a" where
  "repeatedly 0 f x = Inr x"
| "repeatedly (Suc n) f x = (case f x of Inl e \<Rightarrow> Inl e | Inr y \<Rightarrow> repeatedly n f y)"

section \<open>The declared event type: \<open>lib/types.ts\<close>\<close>

text \<open>
  \<open>RunEvent\<close> is a union discriminated by \<open>type\<close>. An optional field
  (\<open>message?\<close>, \<open>coverage?\<close>) is an \<open>option\<close>: \<open>None\<close> is the absent field,
  \<open>undefined\<close> when read. \<open>RunState_name\<close> and \<open>tool_name\<close> give the string literals
  of the two literal unions.
\<close>

datatype RunState = Queued | Running | Done | Errored

fun RunState_name :: "RunState \<Rightarrow> string" where
  "RunState_name Queued = ''queued''"
| "RunState_name Running = ''running''"
| "RunState_name Done = ''done''"
| "RunState_name Errored = ''error''"

datatype tool = Bash | Edit | Sequential_thinking | Test | Commit

fun tool_name :: "tool \<Rightarrow> string" where
  "tool_name Bash = ''bash''"
| "tool_name Edit = ''edit''"
| "tool_name Sequential_thinking = ''sequential_thinking''"
| "tool_name Test = ''test''"
| "tool_name Commit = ''commit''"

record FileDiff =
  path :: string
  patch :: string

datatype 'n RunEvent =
    Status string RunState "string option"
  | Step 'n tool string
  | Output string string
  | Diff "FileDiff list"
  | Metrics "'n option" "'n option" "'n option"
  | Error_event string

text \<open>
  A step event as \<open>JSON.parse\<close> yields it from a frame that lists the declared fields in
  the declared order. At run time the tool is whatever string the frame holds: the
  literal union of the declaration is erased.
\<close>

definition step_event :: "'n \<Rightarrow> string \<Rightarrow> string \<Rightarrow> 'n json" where
  "step_event i t s =
     JObj [(''type'', JStr ''step''), (''index'', JNum i), (''tool'', JStr t), (''summary'', JStr s)]"

section \<open>Rendering the log: \<open>components/LogStream.tsx\<close>\<close>

text \<open>
  \<open>LogStream\<close> takes the events as a prop of the declared type \<open>RunEvent[]\<close> and is
  modelled on that type. One row per event; the static text around the interpolated
  values is left out. A
  child of the metrics row is what \<open>{e.coverage ?? "-"}\<close> evaluates to: the number, or
  the string on the right of \<open>??\<close> when the field is \<open>undefined\<close>.
\<close>

datatype 'n child = Num 'n | Txt string

datatype 'n row =
    Output_row string
  | Step_row string string
  | Status_row string
  | Error_row string
  | Metrics_row "'n child" "'n child" "'n child"
  | Diff_row "(string \<times> string) list"

fun LogStream_row :: "'n::zero RunEvent \<Rightarrow> 'n row" where
  "LogStream_row (Output t x) = Output_row x"
| "LogStream_row (Step i t s) = Step_row (tool_name t) s"
| "LogStream_row (Status r st m) = Status_row (RunState_name st)"
| "LogStream_row (Error_event m) = Error_row m"
| "LogStream_row (Metrics coverage refactor combo) =
     Metrics_row (case coverage of None \<Rightarrow> Txt ''-'' | Some c \<Rightarrow> Num c)
                 (case refactor of None \<Rightarrow> Txt ''-'' | Some r \<Rightarrow> Num r)
                 (case combo of None \<Rightarrow> Num 0 | Some k \<Rightarrow> Num k)"
| "LogStream_row (Diff files) = Diff_row (map (\<lambda>f. (path f, patch f)) files)"

definition LogStream :: "'n::zero RunEvent list \<Rightarrow> 'n row list" where
  "LogStream events = map LogStream_row events"

section \<open>The run page: \<open>pages/P1Run.tsx\<close>, the stream subscription\<close>

text \<open>
  \<open>try { body } catch {}\<close>: when the body throws, the exception is swallowed and the
  state is the one before the body.
\<close>

definition try_catch :: "exn + 's \<Rightarrow> 's \<Rightarrow> 's" where
  "try_catch b s = (case b of Inl e \<Rightarrow> s | Inr s' \<Rightarrow> s')"

text \<open>
  The handler given to \<open>p1OpenStream\<close>:
  \<open>try { setEvents((e) => [...e, JSON.parse(ev.data)]); } catch {}\<close>.
  The body of the \<open>try\<close> is the call of the setter, which enqueues the updater and
  returns; \<open>JSON.parse\<close> stands inside the updater and runs when React processes the
  queue.
\<close>

definition P1Run_onEvent :: "(string \<Rightarrow> 'e option) \<Rightarrow> 'e list hook \<Rightarrow> string \<Rightarrow> 'e list hook" where
  "P1Run_onEvent JSON_parse events d =
     try_catch
       (Inr (setState events
          (Updater (\<lambda>e. case JSON_parse d of None \<Rightarrow> Inl SyntaxError | Some v \<Rightarrow> Inr (e @ [v])))))
       events"

text \<open>
  The effect of \<open>P1Run\<close>: no subscription while \<open>runId\<close> is \<open>undefined\<close> or empty,
  otherwise one stream with the handler above.
\<close>

definition P1Run_effect ::
  "(string \<Rightarrow> 'e option) \<Rightarrow> string option \<Rightarrow> (EventSource \<times> 'e list hook es_handlers) option" where
  "P1Run_effect JSON_parse runId =
     (case runId of
        None \<Rightarrow> None
      | Some r \<Rightarrow> if r = [] then None else Some (p1OpenStream r (P1Run_onEvent JSON_parse)))"

text \<open>
  The JSX of \<open>P1Run\<close>, the same rows as \<open>LogStream\<close> but over the values the log really
  holds: whatever \<open>JSON.parse\<close> returned. Rendering has two phases. First the component
  function maps over the log and builds one element per event; this reads \<open>e.type\<close>
  (a \<open>TypeError\<close> when \<open>e\<close> is \<open>null\<close>) and, in the branch that matches, the fields the
  branch shows. \<open>e.files?.map(...)\<close> is nothing when \<open>files\<close> is \<open>null\<close> or absent,
  maps over an array reading \<open>f.path\<close> and \<open>f.patch\<close>, and is a \<open>TypeError\<close> on any
  other value (it has no function \<open>map\<close>). The static text of the rows is left out.
\<close>

definition nullish :: "'n json option \<Rightarrow> 'n json \<Rightarrow> 'n json" where
  "nullish v d = (case v of None \<Rightarrow> d | Some JNull \<Rightarrow> d | Some x \<Rightarrow> x)"

datatype 'n element =
    Output_el "'n json option"
  | Step_el "'n json option" "'n json option"
  | Status_el "'n json option"
  | Error_el "'n json option"
  | Metrics_el "'n json" "'n json" "'n json"
  | Diff_el "('n json option \<times> 'n json option) list"
  | No_el

definition file_element :: "'n json \<Rightarrow> exn + ('n json option \<times> 'n json option)" where
  "file_element f =
     (case get_prop f ''path'' of
        Inl x \<Rightarrow> Inl x
      | Inr p \<Rightarrow> (case get_prop f ''patch'' of Inl x \<Rightarrow> Inl x | Inr q \<Rightarrow> Inr (p, q)))"

definition P1Run_files :: "'n json option \<Rightarrow> exn + 'n element" where
  "P1Run_files files =
     (case files of
        None \<Rightarrow> Inr (Diff_el [])
      | Some JNull \<Rightarrow> Inr (Diff_el [])
      | Some (JArr fs) \<Rightarrow>
          (case sequence (map file_element fs) of Inl x \<Rightarrow> Inl x | Inr ps \<Rightarrow> Inr (Diff_el ps))
      | Some v \<Rightarrow> Inl TypeError)"

fun P1Run_element :: "'n::zero json \<Rightarrow> exn + 'n element" where
  "P1Run_element JNull = Inl TypeError"
| "P1Run_element (JObj kvs) =
     (if map_of kvs ''type'' = Some (JStr ''output'') then Inr (Output_el (map_of kvs ''text''))
      else if map_of kvs ''type'' = Some (JStr ''step'')
        then Inr (Step_el (map_of kvs ''tool'') (map_of kvs ''summary''))
      else if map_of kvs ''type'' = Some (JStr ''status'') then Inr (Status_el (map_of kvs ''state''))
      else if map_of kvs ''type'' = Some (JStr ''error'') then Inr (Error_el (map_of kvs ''message''))
      else if map_of kvs ''type'' = Some (JStr ''metrics'')
        then Inr (Metrics_el (nullish (map_of kvs ''coverage'') (JStr ''-''))
                             (nullish (map_of kvs ''refactor'') (JStr ''-''))
                             (nullish (map_of kvs ''combo'') (JNum 0)))
      else if map_of kvs ''type'' = Some (JStr ''diff'') then P1Run_files (map_of kvs ''files'')
      else Inr No_el)"
| "P1Run_element v = Inr No_el"

text \<open>
  Then React reconciles the elements in document order and turns every interpolated
  value into children: a string or a number is a text child, \<open>null\<close>, \<open>undefined\<close> and
  booleans are nothing, an array is its items' children, and an object is the error
  \<open>Invalid_child\<close>.
\<close>

fun render_child :: "'n json \<Rightarrow> exn + 'n child list" where
  "render_child JNull = Inr []"
| "render_child (JBool b) = Inr []"
| "render_child (JNum n) = Inr [Num n]"
| "render_child (JStr t) = Inr [Txt t]"
| "render_child (JArr vs) =
     (case sequence (map render_child vs) of Inl e \<Rightarrow> Inl e | Inr cs \<Rightarrow> Inr (concat cs))"
| "render_child (JObj kvs) = Inl Invalid_child"

definition children :: "'n json option \<Rightarrow> exn + 'n child list" where
  "children v = (case v of None \<Rightarrow> Inr [] | Some j \<Rightarrow> render_child j)"

datatype 'n node =
    Output_node "'n child list"
  | Step_node "'n child list" "'n child list"
  | Status_node "'n child list"
  | Error_node "'n child list"
  | Metrics_node "'n child list" "'n child list" "'n child list"
  | Diff_node "('n child list \<times> 'n child list) list"
  | Empty_node

definition reconcile_file ::
  "'n json option \<times> 'n json option \<Rightarrow> exn + ('n child list \<times> 'n child list)" where
  "reconcile_file pq =
     (case children (fst pq) of
        Inl e \<Rightarrow> Inl e
      | Inr a \<Rightarrow> (case children (snd pq) of Inl e \<Rightarrow> Inl e | Inr b \<Rightarrow> Inr (a, b)))"

fun reconcile :: "'n element \<Rightarrow> exn + 'n node" where
  "reconcile (Output_el t) =
     (case children t of Inl e \<Rightarrow> Inl e | Inr a \<Rightarrow> Inr (Output_node a))"
| "reconcile (Step_el t s) =
     (case children t of
        Inl e \<Rightarrow> Inl e
      | Inr a \<Rightarrow> (case children s of Inl e \<Rightarrow> Inl e | Inr b \<Rightarrow> Inr (Step_node a b)))"
| "reconcile (Status_el t) =
     (case children t of Inl e \<Rightarrow> Inl e | Inr a \<Rightarrow> Inr (Status_node a))"
| "reconcile (Error_el t) =
     (case children t of Inl e \<Rightarrow> Inl e | Inr a \<Rightarrow> Inr (Error_node a))"
| "reconcile (Metrics_el c r k) =
     (case render_child c of
        Inl e \<Rightarrow> Inl e
      | Inr a \<Rightarrow>
          (case render_child r of
             Inl e \<Rightarrow> Inl e
           | Inr b \<Rightarrow> (case render_child k of Inl e \<Rightarrow> Inl e | Inr d \<Rightarrow> Inr (Metrics_node a b d))))"
| "reconcile (Diff_el ps) =
     (case sequence (map reconcile_file ps) of Inl e \<Rightarrow> Inl e | Inr fs \<Rightarrow> Inr (Diff_node fs))"
| "reconcile No_el = Inr Empty_node"

definition P1Run_view :: "'n::zero json list \<Rightarrow> exn + 'n node list" where
  "P1Run_view events =
     (case sequence (map P1Run_element events) of
        Inl e \<Rightarrow> Inl e
      | Inr els \<Rightarrow> sequence (map reconcile els))"

text \<open>
  One render of \<open>P1Run\<close>: the hook's queue is processed, then the JSX is evaluated on
  the new log. An exception in either is not caught anywhere (\<open>routes.tsx\<close> mounts the
  page without an error boundary): React unmounts the tree, and the result is the
  exception.
\<close>

definition P1Run_render :: "'n::zero json list hook \<Rightarrow> exn + 'n json list hook" where
  "P1Run_render events =
     (case render_hook events of
        Inl e \<Rightarrow> Inl e
      | Inr events' \<Rightarrow>
          (case P1Run_view (current events') of Inl e \<Rightarrow> Inl e | Inr ns \<Rightarrow> Inr events'))"

text \<open>
  The frames the stream delivers, one message event each: the handler runs, then React
  renders \<open>P1Run\<close> again.
\<close>

fun P1Run_frames ::
  "(string \<Rightarrow> 'n::zero json option) \<Rightarrow> 'n json list hook \<Rightarrow> string list \<Rightarrow> exn + 'n json list hook" where
  "P1Run_frames JSON_parse events [] = Inr events"
| "P1Run_frames JSON_parse events (d # ds) =
     (case P1Run_render (P1Run_onEvent JSON_parse events d) of
        Inl e \<Rightarrow> Inl e
      | Inr events' \<Rightarrow> P1Run_frames JSON_parse events' ds)"

section \<open>The interactive page: \<open>pages/P2Interactive.tsx\<close>\<close>

text \<open>
  The component's state: five \<open>useState\<close> hooks and the ref holding the channel. The
  TypeScript annotations are erased at run time: \<open>session_id\<close> is whatever the response
  object holds under that key, and a template literal turns it into text with the
  runtime's \<open>ToString\<close>, a parameter here, as is \<open>String.prototype.trim\<close>.
\<close>

record 'n P2Interactive =
  appName :: "string hook"
  desc :: "string hook"
  sessionId :: "'n json option hook"
  chat :: "'n json list hook"
  wsRef :: "WebSocket option"
  input :: "string hook"

definition P2_onMsg :: "'n P2Interactive \<Rightarrow> 'n json \<Rightarrow> exn + 'n P2Interactive" where
  "P2_onMsg pg msg = Inr (pg\<lparr>chat := setState (chat pg) (Updater (\<lambda>c. Inr (c @ [msg])))\<rparr>)"

definition greeting :: "('n json option \<Rightarrow> string) \<Rightarrow> 'n json option \<Rightarrow> 'n json" where
  "greeting ToString session_id =
     JObj [(''role'', JStr ''assistant''),
           (''text'', JStr (''Session '' @ ToString session_id @ '' ready. Tell me what to scaffold.''))]"

text \<open>
  \<open>onStart\<close>: the continuation after the \<open>await\<close> reads no component state; it calls
  setters and assigns the ref, in the order of the source. When \<open>p2OpenWS\<close> throws, the
  session id is already queued and nothing else has happened.
\<close>

definition onStart ::
  "(string \<Rightarrow> 'n json option) \<Rightarrow> ('n json \<Rightarrow> string) \<Rightarrow> ('n json option \<Rightarrow> string)
     \<Rightarrow> ('f request \<Rightarrow> exn + response) \<Rightarrow> location \<Rightarrow> 'n P2Interactive
     \<Rightarrow> 'n P2Interactive outcome" where
  "onStart JSON_parse JSON_stringify ToString fetch loc pg =
     (case p2CreateSession JSON_parse JSON_stringify fetch
             (JObj [(''appName'', JStr (current (appName pg))),
                    (''description'', JStr (current (desc pg)))]) of
        Inl e \<Rightarrow> Throws e pg
      | Inr v \<Rightarrow>
          (case get_prop v ''session_id'' of
             Inl e \<Rightarrow> Throws e pg
           | Inr session_id \<Rightarrow>
               (case p2OpenWS loc (ToString session_id) of
                  Inl e \<Rightarrow> Throws e (pg\<lparr>sessionId := setState (sessionId pg) (Value session_id)\<rparr>)
                | Inr ws \<Rightarrow>
                    Returns (pg\<lparr>sessionId := setState (sessionId pg) (Value session_id),
                                wsRef := Some ws,
                                chat := setState (chat pg) (Value [greeting ToString session_id])\<rparr>))))"

text \<open>\<open>wsRef.current?.send(m)\<close>: nothing when the ref is \<open>null\<close>.\<close>

definition wsRef_send ::
  "('n json \<Rightarrow> string) \<Rightarrow> 'n P2Interactive \<Rightarrow> 'n json \<Rightarrow> 'n P2Interactive outcome" where
  "wsRef_send JSON_stringify pg m =
     (case wsRef pg of
        None \<Rightarrow> Returns pg
      | Some ws \<Rightarrow>
          (case p2_send JSON_stringify ws m of
             Inl e \<Rightarrow> Throws e pg
           | Inr ws' \<Rightarrow> Returns (pg\<lparr>wsRef := Some ws'\<rparr>)))"

definition sendUser ::
  "(string \<Rightarrow> string) \<Rightarrow> ('n json \<Rightarrow> string) \<Rightarrow> 'n P2Interactive \<Rightarrow> 'n P2Interactive outcome" where
  "sendUser trim JSON_stringify pg =
     (let t = trim (current (input pg)) in
      if t = [] then Returns pg
      else
        (case wsRef_send JSON_stringify
                (pg\<lparr>chat := setState (chat pg)
                       (Updater (\<lambda>c. Inr (c @ [JObj [(''role'', JStr ''user''), (''text'', JStr t)]])))\<rparr>)
                (JObj [(''type'', JStr ''answer''), (''text'', JStr t)]) of
           Throws e pg' \<Rightarrow> Throws e pg'
         | Returns pg' \<Rightarrow> Returns (pg'\<lparr>input := setState (input pg') (Value [])\<rparr>)))"

definition onApprove ::
  "('n json \<Rightarrow> string) \<Rightarrow> 'n P2Interactive \<Rightarrow> string \<Rightarrow> 'n P2Interactive outcome" where
  "onApprove JSON_stringify pg actionId =
     wsRef_send JSON_stringify pg (JObj [(''type'', JStr ''approve''), (''actionId'', JStr actionId)])"

definition onReject ::
  "('n json \<Rightarrow> string) \<Rightarrow> 'n P2Interactive \<Rightarrow> string \<Rightarrow> 'n P2Interactive outcome" where
  "onReject JSON_stringify pg actionId =
     wsRef_send JSON_stringify pg
       (JObj [(''type'', JStr ''reject''), (''actionId'', JStr actionId), (''reason'', JStr ''Not now'')])"

text \<open>
  An exception that leaves an event handler is reported by the browser as uncaught; the
  page lives on in the state the handler left, and the next handler runs on it.
\<close>

fun state_of :: "'s outcome \<Rightarrow> 's" where
  "state_of (Returns s) = s"
| "state_of (Throws e s) = s"

fun thrown :: "'s outcome \<Rightarrow> exn option" where
  "thrown (Returns s) = None"
| "thrown (Throws e s) = Some e"

section \<open>Concrete inputs for the examples\<close>

text \<open>
  The runtime at the texts and values the examples below use, with numbers as integers.
  \<open>sample_parse\<close> is \<open>JSON.parse\<close> on the texts listed, four sample frames among
  them. The texts \<open>{oops\<close>, \<open>not json\<close> and \<open><html>\<close> of the examples are not JSON
  and are not in the table. \<open>sample_stringify\<close> is \<open>JSON.stringify\<close> on the three
  outbound messages and the two request payloads listed; the examples pass it no other
  value. \<open>sample_ToString\<close> is right on strings and \<open>undefined\<close>, \<open>sample_trim\<close> on
  ASCII text.
\<close>

definition frame_step0 :: string where
  "frame_step0 = ''{\"type\":\"step\",\"index\":0,\"tool\":\"bash\",\"summary\":\"a\"}''"

definition frame_step1 :: string where
  "frame_step1 = ''{\"type\":\"step\",\"index\":1,\"tool\":\"bash\",\"summary\":\"b\"}''"

definition frame_output :: string where
  "frame_output = ''{\"type\":\"output\",\"tool\":\"bash\",\"text\":\"ok\"}''"

definition frame_metrics :: string where
  "frame_metrics = ''{\"type\":\"metrics\"}''"

definition sample_parse :: "string \<Rightarrow> int json option" where
  "sample_parse =
     map_of [(''7'', JNum 7), (''8'', JNum 8), (''null'', JNull),
             (''{\"session_id\":\"s1\"}'', JObj [(''session_id'', JStr ''s1'')]),
             (''{\"session_id\":\"s#1\"}'', JObj [(''session_id'', JStr ''s#1'')]),
             (''{\"run_id\":\"r1\"}'', JObj [(''run_id'', JStr ''r1'')]),
             (''{\"zip_token\":\"z1\"}'', JObj [(''zip_token'', JStr ''z1'')]),
             (''{\"role\":\"assistant\",\"text\":\"hi\"}'',
                JObj [(''role'', JStr ''assistant''), (''text'', JStr ''hi'')]),
             (frame_step0, step_event 0 ''bash'' ''a''),
             (frame_step1, step_event 1 ''bash'' ''b''),
             (frame_output,
                JObj [(''type'', JStr ''output''), (''tool'', JStr ''bash''), (''text'', JStr ''ok'')]),
             (frame_metrics, JObj [(''type'', JStr ''metrics'')])]"

definition sample_stringify :: "int json \<Rightarrow> string" where
  "sample_stringify m =
     (case map_of
        [(JObj [(''type'', JStr ''approve''), (''actionId'', JStr ''42'')],
            ''{\"type\":\"approve\",\"actionId\":\"42\"}''),
         (JObj [(''type'', JStr ''reject''), (''actionId'', JStr ''42''), (''reason'', JStr ''Not now'')],
            ''{\"type\":\"reject\",\"actionId\":\"42\",\"reason\":\"Not now\"}''),
         (JObj [(''type'', JStr ''answer''), (''text'', JStr ''hi'')],
            ''{\"type\":\"answer\",\"text\":\"hi\"}''),
         (JObj [(''tasks'', JArr [JStr ''a'', JStr ''b'']), (''git_url'', JStr ''https://x/y.git'')],
            ''{\"tasks\":[\"a\",\"b\"],\"git_url\":\"https://x/y.git\"}''),
         (JObj [(''appName'', JStr ''app''), (''description'', JStr ''a demo'')],
            ''{\"appName\":\"app\",\"description\":\"a demo\"}'')] m of
        Some t \<Rightarrow> t
      | None \<Rightarrow> [])"

fun sample_ToString :: "int json option \<Rightarrow> string" where
  "sample_ToString (Some (JStr t)) = t"
| "sample_ToString v = ''undefined''"

definition ascii_space :: "char \<Rightarrow> bool" where
  "ascii_space c =
     (c = CHR 0x20 \<or> c = CHR 0x09 \<or> c = CHR 0x0A \<or> c = CHR 0x0B \<or> c = CHR 0x0C \<or> c = CHR 0x0D)"

definition sample_trim :: "string \<Rightarrow> string" where
  "sample_trim t = rev (dropWhile ascii_space (rev (dropWhile ascii_space t)))"

text \<open>A backend that answers every request with the response \<open>r\<close>.\<close>

definition respond :: "response \<Rightarrow> 'f request \<Rightarrow> exn + response" where
  "respond r req = Inr r"

text \<open>The backend of the examples: it answers 200 with the session id \<open>s1\<close>.\<close>

definition session_backend :: "unit request \<Rightarrow> exn + response" where
  "session_backend = respond \<lparr>status = 200, body = ''{\"session_id\":\"s1\"}''\<rparr>"

text \<open>A backend whose session id holds a \<open>#\<close>.\<close>

definition fragment_backend :: "unit request \<Rightarrow> exn + response" where
  "fragment_backend = respond \<lparr>status = 200, body = ''{\"session_id\":\"s#1\"}''\<rparr>"

definition sample_location :: location where
  "sample_location = \<lparr>protocol = ''https:'', host = ''mojo.example''\<rparr>"

definition fresh_page :: "int P2Interactive" where
  "fresh_page =
     \<lparr>appName = useState ''app'', desc = useState ''a demo'', sessionId = useState None,
      chat = useState [], wsRef = None, input = useState ''hi''\<rparr>"

definition open_socket :: WebSocket where
  "open_socket = \<lparr>ws_url = ''wss://mojo.example/api/p2/ws/s1'', ws_readyState = WS_OPEN, transmitted = []\<rparr>"

text \<open>
  Three states of the interactive page: right after the channel was constructed (the
  socket is still connecting), with an open channel, and with an older chat line
  rendered and an inbound message appended to the queue but not rendered yet.
\<close>

definition connecting_socket :: WebSocket where
  "connecting_socket =
     \<lparr>ws_url = ''wss://mojo.example/api/p2/ws/s1'', ws_readyState = WS_CONNECTING, transmitted = []\<rparr>"

definition connecting_page :: "int P2Interactive" where
  "connecting_page = fresh_page\<lparr>wsRef := Some connecting_socket\<rparr>"

definition open_page :: "int P2Interactive" where
  "open_page = fresh_page\<lparr>wsRef := Some open_socket\<rparr>"

definition busy_page :: "int P2Interactive" where
  "busy_page =
     fresh_page\<lparr>chat :=
       setState (useState [JObj [(''role'', JStr ''user''), (''text'', JStr ''old'')]])
         (Updater (\<lambda>c. Inr (c @ [JObj [(''role'', JStr ''assistant''), (''text'', JStr ''hi'')]])))\<rparr>"

section \<open>Hooks and the run page's log\<close>

lemma process_queue_append:
  "process_queue (xs @ ys) s =
     (case process_queue xs s of Inl e \<Rightarrow> Inl e | Inr s' \<Rightarrow> process_queue ys s')"
  by (induction xs arbitrary: s) (auto split: sum.splits)

text \<open>
  One frame on a rendered log: the render that follows the handler applies the queued
  updater, so it throws when the frame is not JSON; when it is, the parsed value is
  appended and the JSX is evaluated on the longer log.
\<close>

lemma render_after_onEvent:
  "render_hook (P1Run_onEvent P (useState xs) d) =
     (case P d of None \<Rightarrow> Inl SyntaxError | Some v \<Rightarrow> Inr (useState (xs @ [v])))"
  by (simp add: render_hook_def P1Run_onEvent_def try_catch_def setState_def useState_def
      split: option.splits)

lemma current_useState: "current (useState xs) = xs"
  by (simp add: useState_def)



lemma P1Run_render_after_onEvent:
  "P1Run_render (P1Run_onEvent P (useState xs) d) =
     (case P d of
        None \<Rightarrow> Inl SyntaxError
      | Some v \<Rightarrow> (case P1Run_view (xs @ [v]) of Inl e \<Rightarrow> Inl e | Inr ns \<Rightarrow> Inr (useState (xs @ [v]))))"
  by (simp add: P1Run_render_def render_after_onEvent current_useState split: option.splits)


lemma P1Run_frames_malformed_first:
  "P d = None \<Longrightarrow> P1Run_frames P (useState xs) (d # ds) = Inl SyntaxError"
  by (simp add: P1Run_render_after_onEvent)



lemma sample_frames:
  "sample_parse ''7'' = Some (JNum 7)" "sample_parse ''8'' = Some (JNum 8)"
  "sample_parse ''null'' = Some JNull"
  "sample_parse ''{oops'' = None" "sample_parse ''not json'' = None" "sample_parse ''<html>'' = None"
  "sample_parse frame_step0 = Some (step_event 0 ''bash'' ''a'')"
  "sample_parse frame_step1 = Some (step_event 1 ''bash'' ''b'')"
  "sample_parse frame_metrics = Some (JObj [(''type'', JStr ''metrics'')])"
  by (simp_all add: sample_parse_def frame_step0_def frame_step1_def frame_output_def
      frame_metrics_def)

text \<open>
  The JSX on single events: an object as a child and a \<open>files\<close> that is no array throw,
  a file list renders, and a \<open>null\<close> later in the log throws before any child of an
  earlier row is looked at.
\<close>

lemma P1Run_view_examples:
  "P1Run_view [JObj [(''type'', JStr ''output''), (''text'', JObj [])] :: int json] = Inl Invalid_child"
  "P1Run_view [JObj [(''type'', JStr ''diff''), (''files'', JNum 3)] :: int json] = Inl TypeError"
  "P1Run_view [JObj [(''type'', JStr ''diff''),
                     (''files'', JArr [JObj [(''path'', JStr ''a.ts''), (''patch'', JStr ''+x'')]])] :: int json]
     = Inr [Diff_node [([Txt ''a.ts''], [Txt ''+x''])]]"
  "P1Run_view [JObj [(''type'', JStr ''output''), (''text'', JObj [])], JNull :: int json] = Inl TypeError"
  "P1Run_view [JNum 7, JStr ''x'', JArr [], JObj [(''type'', JStr ''other'')] :: int json]
     = Inr [Empty_node, Empty_node, Empty_node, Empty_node]"
  by (simp_all add: P1Run_view_def P1Run_files_def file_element_def reconcile_file_def children_def)

text \<open>
  A frame can be JSON and still unmount the page: \<open>null\<close> is logged, and the JSX reads
  \<open>e.type\<close> of it.
\<close>

lemma P1Run_null_frame_throws_in_render:
  "P1Run_frames sample_parse (useState []) [''7'', ''null'', ''8''] = Inl TypeError"
  by (simp add: P1Run_render_after_onEvent sample_frames P1Run_view_def)

text \<open>
  C1. The claim: the log is the ordered subsequence of the frames that parse, and a frame
  that does not parse is dropped without a crash. On the code, a frame that is not JSON
  is not dropped: the \<open>try\<close> of the handler encloses only the setter call, the parse
  runs inside the queued updater, and the \<open>SyntaxError\<close> is thrown by the render of
  \<open>P1Run\<close>. Here the frames \<open>7\<close>, \<open>{oops\<close>, \<open>8\<close> arrive on an empty log: the render
  after the second frame throws, and neither \<open>7\<close> nor \<open>8\<close> is shown any more.
\<close>

theorem P1Run_malformed_frame_throws_in_render:
  "P1Run_frames sample_parse (useState []) [''7'', ''{oops'', ''8''] = Inl SyntaxError"
  by (simp add: P1Run_render_after_onEvent sample_frames P1Run_view_def)


section \<open>Bootstrap calls\<close>

lemma bootstrap_examples:
  "p1StartRun sample_parse sample_stringify (respond \<lparr>status = 400, body = ''bad input''\<rparr>)
     (JObj [(''tasks'', JArr [JStr ''a'', JStr ''b'']), (''git_url'', JStr ''https://x/y.git'')])
     = Inl (Error ''bad input'')"
  "p1StartRun sample_parse sample_stringify (respond \<lparr>status = 200, body = ''{\"run_id\":\"r1\"}''\<rparr>)
     (JObj [(''tasks'', JArr [JStr ''a'', JStr ''b'']), (''git_url'', JStr ''https://x/y.git'')])
     = Inr (JObj [(''run_id'', JStr ''r1'')])"
  "p2CreateSession sample_parse sample_stringify session_backend
     (JObj [(''appName'', JStr ''app''), (''description'', JStr ''a demo'')])
     = Inr (JObj [(''session_id'', JStr ''s1'')])"
  "uploadZip sample_parse (respond \<lparr>status = 200, body = ''{\"zip_token\":\"z1\"}''\<rparr>) ''archive.zip''
     = Inr (JObj [(''zip_token'', JStr ''z1'')])"
  by (simp_all add: p1StartRun_def p2CreateSession_def uploadZip_def session_backend_def respond_def
      response_json_def ok_def sample_parse_def frame_step0_def frame_step1_def frame_output_def frame_metrics_def)

text \<open>
  C2, as amended. For each of \<open>p1StartRun\<close>, \<open>p2CreateSession\<close> and \<open>uploadZip\<close>, and
  every response \<open>r\<close> of the backend: when the status is not 2xx the call throws an
  \<open>Error\<close> whose message is exactly the body text; when the status is 2xx and the body
  is JSON the call returns the parsed value; when the status is 2xx and the body is not
  JSON the call throws the parser's \<open>SyntaxError\<close>.
\<close>

theorem bootstrap_outcome:
  "p1StartRun P S (respond r) payload =
     (if ok r then (case P (body r) of None \<Rightarrow> Inl SyntaxError | Some v \<Rightarrow> Inr v)
      else Inl (Error (body r)))
   \<and> p2CreateSession P S (respond r) payload =
     (if ok r then (case P (body r) of None \<Rightarrow> Inl SyntaxError | Some v \<Rightarrow> Inr v)
      else Inl (Error (body r)))
   \<and> uploadZip P (respond r) file =
     (if ok r then (case P (body r) of None \<Rightarrow> Inl SyntaxError | Some v \<Rightarrow> Inr v)
      else Inl (Error (body r)))"
  by (simp add: p1StartRun_def p2CreateSession_def uploadZip_def respond_def response_json_def)

text \<open>
  C2 as stated fails: a successful response does not always make the call return. The
  backend answers the upload with status 200 and the body \<open><html>\<close>: the response is
  successful, and \<open>uploadZip\<close> throws.
\<close>

theorem bootstrap_2xx_not_json_throws:
  "ok \<lparr>status = 200, body = ''<html>''\<rparr> \<and>
   uploadZip sample_parse (respond \<lparr>status = 200, body = ''<html>''\<rparr>) ''archive.zip'' = Inl SyntaxError"
  by (simp add: ok_def uploadZip_def respond_def response_json_def sample_parse_def frame_step0_def frame_step1_def frame_output_def frame_metrics_def)

section \<open>Frames on the interactive channel\<close>

lemma p2_onmessage_malformed:
  "P d = None \<Longrightarrow> p2_onmessage P onMsg s d = Inl SyntaxError"
  by (simp add: p2_onmessage_def)

lemma p2_onmessage_parsed:
  "P d = Some m \<Longrightarrow> p2_onmessage P P2_onMsg pg d =
     Inr (pg\<lparr>chat := setState (chat pg) (Updater (\<lambda>c. Inr (c @ [m])))\<rparr>)"
  by (simp add: p2_onmessage_def P2_onMsg_def)

lemma p2_frame_logged:
  "p2_onmessage sample_parse P2_onMsg fresh_page ''{\"role\":\"assistant\",\"text\":\"hi\"}'' = Inr pg
   \<Longrightarrow> render_hook (chat pg) =
       Inr (useState [JObj [(''role'', JStr ''assistant''), (''text'', JStr ''hi'')]])"
  by (auto simp: p2_onmessage_def P2_onMsg_def sample_parse_def frame_step0_def frame_step1_def frame_output_def frame_metrics_def fresh_page_def setState_def
      render_hook_def useState_def)

text \<open>
  C3. The claim: a frame that is not JSON is dropped silently, no exception escapes the
  message handler. On the code the handler is \<open>(ev) => onMsg(JSON.parse(ev.data))\<close> with
  no \<open>try\<close>: for the frame \<open>not json\<close> the \<open>SyntaxError\<close> leaves the handler (the page
  state, and with it the message log, is not touched).
\<close>

theorem p2_malformed_frame_escapes_handler:
  "p2_onmessage sample_parse P2_onMsg fresh_page ''not json'' = Inl SyntaxError"
  by (simp add: p2_onmessage_def sample_parse_def frame_step0_def frame_step1_def frame_output_def frame_metrics_def)

section \<open>Sending on the interactive channel\<close>

lemma wsRef_send_no_channel: "wsRef pg = None \<Longrightarrow> wsRef_send S pg m = Returns pg"
  by (simp add: wsRef_send_def)

lemma wsRef_send_connecting:
  "wsRef pg = Some ws \<Longrightarrow> ws_readyState ws = WS_CONNECTING \<Longrightarrow>
   wsRef_send S pg m = Throws InvalidStateError pg"
  by (simp add: wsRef_send_def p2_send_def ws_send_def)

lemma wsRef_send_open:
  "wsRef pg = Some ws \<Longrightarrow> ws_readyState ws = WS_OPEN \<Longrightarrow>
   wsRef_send S pg m = Returns (pg\<lparr>wsRef := Some (ws\<lparr>transmitted := transmitted ws @ [S m]\<rparr>)\<rparr>)"
  by (simp add: wsRef_send_def p2_send_def ws_send_def)

text \<open>
  C4, as amended. A send made while the page holds no channel (\<open>wsRef\<close> is \<open>null\<close>) is a
  no-op: \<open>onApprove\<close> and \<open>onReject\<close> leave the page as it is and \<open>sendUser\<close> throws
  nothing. The helper's \<open>send\<close> has no readiness check: on a socket that is still
  connecting it throws \<open>InvalidStateError\<close>, and \<open>onApprove\<close>, \<open>onReject\<close> and
  \<open>sendUser\<close> (with a non-empty trimmed input) let that exception through.
\<close>

theorem send_before_open:
  "(wsRef pg0 = None \<longrightarrow>
      onApprove S pg0 a = Returns pg0 \<and> onReject S pg0 a = Returns pg0
      \<and> thrown (sendUser T S pg0) = None)
   \<and> (ws_readyState ws = WS_CONNECTING \<longrightarrow> p2_send S ws m = Inl InvalidStateError)
   \<and> (wsRef pg = Some ws \<and> ws_readyState ws = WS_CONNECTING \<longrightarrow>
      onApprove S pg a = Throws InvalidStateError pg
      \<and> onReject S pg a = Throws InvalidStateError pg
      \<and> (T (current (input pg)) \<noteq> [] \<longrightarrow> thrown (sendUser T S pg) = Some InvalidStateError))"
proof (intro conjI impI)
  assume none: "wsRef pg0 = None"
  show "onApprove S pg0 a = Returns pg0" "onReject S pg0 a = Returns pg0"
    by (simp_all add: onApprove_def onReject_def wsRef_send_no_channel none)
  show "thrown (sendUser T S pg0) = None"
    by (simp add: sendUser_def Let_def wsRef_send_def none)
next
  assume "ws_readyState ws = WS_CONNECTING"
  then show "p2_send S ws m = Inl InvalidStateError"
    by (simp add: p2_send_def ws_send_def)
next
  assume c: "wsRef pg = Some ws \<and> ws_readyState ws = WS_CONNECTING"
  then show "onApprove S pg a = Throws InvalidStateError pg"
    "onReject S pg a = Throws InvalidStateError pg"
    by (simp_all add: onApprove_def onReject_def wsRef_send_connecting)
  assume "T (current (input pg)) \<noteq> []"
  with c show "thrown (sendUser T S pg) = Some InvalidStateError"
    by (simp add: sendUser_def Let_def wsRef_send_def p2_send_def ws_send_def)
qed

text \<open>
  Witness for C4: the fresh page holds no channel, and the page right after the channel
  was constructed holds a connecting socket; the input \<open>hi\<close> is not empty.
\<close>

theorem send_before_open_witness:
  "wsRef fresh_page = None
   \<and> onApprove sample_stringify fresh_page ''42'' = Returns fresh_page
   \<and> onReject sample_stringify fresh_page ''42'' = Returns fresh_page
   \<and> thrown (sendUser sample_trim sample_stringify fresh_page) = None
   \<and> p2OpenWS sample_location ''s1'' = Inr connecting_socket
   \<and> ws_readyState connecting_socket = WS_CONNECTING
   \<and> p2_send sample_stringify connecting_socket
        (JObj [(''type'', JStr ''answer''), (''text'', JStr ''hi'')]) = Inl InvalidStateError
   \<and> wsRef connecting_page = Some connecting_socket
   \<and> onApprove sample_stringify connecting_page ''42'' = Throws InvalidStateError connecting_page
   \<and> onReject sample_stringify connecting_page ''42'' = Throws InvalidStateError connecting_page
   \<and> sample_trim (current (input connecting_page)) = ''hi''
   \<and> thrown (sendUser sample_trim sample_stringify connecting_page) = Some InvalidStateError"
proof -
  have h0: "p2OpenWS sample_location ''s1'' = Inr connecting_socket"
    by (simp add: p2OpenWS_def new_WebSocket_def sample_location_def connecting_socket_def)
  have h1: "wsRef fresh_page = None" by (simp add: fresh_page_def)
  have h2: "ws_readyState connecting_socket = WS_CONNECTING"
    by (simp add: connecting_socket_def)
  have h3: "wsRef connecting_page = Some connecting_socket"
    by (simp add: connecting_page_def)
  have h4: "sample_trim (current (input connecting_page)) = ''hi''"
    by (simp add: connecting_page_def fresh_page_def useState_def sample_trim_def ascii_space_def)
  show ?thesis
    using send_before_open [of fresh_page sample_stringify "''42''" sample_trim
        connecting_socket "JObj [(''type'', JStr ''answer''), (''text'', JStr ''hi'')]"
        connecting_page]
      h0 h1 h2 h3 h4
    by simp
qed

text \<open>
  C4 as stated fails: a send before the channel is open can throw, and nothing handles
  the exception. \<open>onStart\<close> succeeds on the fresh page (the backend answers 200 with a
  session id), which leaves a connecting socket in \<open>wsRef\<close>; the user approves action
  \<open>42\<close> at once, and \<open>InvalidStateError\<close> leaves \<open>onApprove\<close>.
\<close>

theorem approve_right_after_onStart_throws:
  "thrown (onApprove sample_stringify
      (state_of (onStart sample_parse sample_stringify sample_ToString
         session_backend sample_location fresh_page))
      ''42'') = Some InvalidStateError"
  by (simp add: onApprove_def onStart_def p2CreateSession_def session_backend_def respond_def ok_def
      response_json_def sample_parse_def frame_step0_def frame_step1_def frame_output_def
      frame_metrics_def wsRef_send_def p2_send_def ws_send_def p2OpenWS_def new_WebSocket_def
      sample_location_def)

section \<open>Step events\<close>




section \<open>Closing\<close>

lemma es_close_idem: "es_close (es_close es) = es_close es"
  by (simp add: es_close_def)

lemma ws_close_idem: "ws_close (ws_close ws) = ws_close ws"
  by (cases "ws_readyState ws") (simp_all add: ws_close_def)

lemma repeatedly_p1_off: "repeatedly n p1_off es = Inr (if n = 0 then es else es_close es)"
proof (induction n arbitrary: es)
  case 0
  show ?case by simp
next
  case (Suc n)
  have first: "p1_off es = Inr (es_close es)" by (simp add: p1_off_def)
  show ?case by (simp add: first Suc.IH es_close_idem)
qed

lemma repeatedly_p2_close: "repeatedly n p2_close ws = Inr (if n = 0 then ws else ws_close ws)"
proof (induction n arbitrary: ws)
  case 0
  show ?case by simp
next
  case (Suc n)
  have first: "p2_close ws = Inr (ws_close ws)" by (simp add: p2_close_def)
  show ?case by (simp add: first Suc.IH ws_close_idem)
qed

text \<open>
  C6. Closing is idempotent and never an error: the closer returned by \<open>p1OpenStream\<close>
  and the \<open>close\<close> of \<open>p2OpenWS\<close>, called any number \<open>n\<close> of times on a stream or
  channel in any state, return normally, and the state after \<open>n > 0\<close> calls is the state
  after one call; closing what is already closed changes nothing.
\<close>

theorem close_any_number_of_times:
  "repeatedly n p1_off es = Inr (if n = 0 then es else es_close es)
   \<and> repeatedly n p2_close ws = Inr (if n = 0 then ws else ws_close ws)
   \<and> p1_off (es_close es) = Inr (es_close es)
   \<and> p2_close (ws_close ws) = Inr (ws_close ws)"
  by (simp add: repeatedly_p1_off repeatedly_p2_close p1_off_def p2_close_def
      es_close_idem ws_close_idem)

section \<open>Metrics without fields\<close>

text \<open>
  The run page on the frame \<open>{"type":"metrics"}\<close>: the object is logged, and the JSX of
  \<open>P1Run\<close> shows the same three values as \<open>LogStream\<close> does.
\<close>

lemma metrics_frame_rendered:
  "P1Run_frames sample_parse (useState []) [frame_metrics] =
     Inr (useState [JObj [(''type'', JStr ''metrics'')]])"
  "P1Run_view [JObj [(''type'', JStr ''metrics'')] :: int json] =
     Inr [Metrics_node [Txt ''-''] [Txt ''-''] [Num 0]]"
  by (simp_all add: P1Run_render_after_onEvent sample_frames P1Run_view_def nullish_def)

text \<open>
  C7. The metrics event with no field present, which is what the frame
  \<open>{"type":"metrics"}\<close> is under the declared type, renders with the placeholder \<open>-\<close>
  for coverage and for refactor and with the number 0 for combo; no child of the row is
  \<open>undefined\<close>.
\<close>

theorem LogStream_metrics_without_fields:
  "LogStream [Metrics None None None] = [Metrics_row (Txt ''-'') (Txt ''-'') (Num (0::'n::zero))]"
  by (simp add: LogStream_def)

section \<open>Transport errors of the run stream\<close>

lemma closed_ignores_signals:
  "readyState es = ES_CLOSED \<Longrightarrow> EventSource_signals h (es, s) sigs = (es, s)"
  by (induction sigs) simp_all

lemma p1_error_closes:
  "EventSource_signal (snd (p1OpenStream runId onEvent)) (es, s) Connection_lost = (es_close es, s)"
  "EventSource_signal (snd (p1OpenStream runId onEvent)) (es, s) Connection_failed = (es_close es, s)"
  by (auto simp: p1OpenStream_def es_close_def)

text \<open>
  The platform does reconnect a stream whose error handler leaves it alone: after a lost
  connection and the retry delay there is a second request, and frames flow again.
\<close>

lemma EventSource_reconnects_unless_closed:
  "EventSource_signals \<lparr>onmessage = f, onerror = (\<lambda>e. e)\<rparr>
       (\<lparr>es_url = u, readyState = ES_OPEN, connections = 1\<rparr>, s)
       [Connection_lost, Retry_elapsed, Connected, Frame d]
     = (\<lparr>es_url = u, readyState = ES_OPEN, connections = 2\<rparr>, f s d)"
  by simp

text \<open>
  C8. On a transport error of the stream opened by \<open>p1OpenStream\<close>, lost connection or
  failed connection, in any state \<open>es\<close> of the stream and \<open>s\<close> of the subscriber, the
  stream is closed, and whatever signals \<open>sigs\<close> the transport produces afterwards the
  stream stays closed, makes no further request (no reconnect) and hands no further
  frame to the subscriber: its state stays \<open>s\<close>.
\<close>

theorem p1_stream_error_closes_for_good:
  "EventSource_signals (snd (p1OpenStream runId onEvent))
       (EventSource_signal (snd (p1OpenStream runId onEvent)) (es, s) Connection_lost) sigs
     = (es_close es, s)
   \<and> EventSource_signals (snd (p1OpenStream runId onEvent))
       (EventSource_signal (snd (p1OpenStream runId onEvent)) (es, s) Connection_failed) sigs
     = (es_close es, s)
   \<and> readyState (es_close es) = ES_CLOSED
   \<and> connections (es_close es) = connections es"
  by (simp add: p1_error_closes closed_ignores_signals es_close_def del: EventSource_signal.simps)

section \<open>Approving and rejecting twice\<close>

text \<open>
  C9. On an open channel, approving the same action twice transmits two frames, each
  the JSON text of \<open>{type: "approve", actionId}\<close>, after what was transmitted before;
  rejecting twice likewise transmits the reject frame twice. Nothing is deduplicated.
\<close>

theorem approve_twice_transmits_twice:
  assumes "wsRef pg = Some ws" and "ws_readyState ws = WS_OPEN"
  shows "onApprove S (state_of (onApprove S pg a)) a =
           Returns (pg\<lparr>wsRef := Some (ws\<lparr>transmitted := transmitted ws @
              [S (JObj [(''type'', JStr ''approve''), (''actionId'', JStr a)]),
               S (JObj [(''type'', JStr ''approve''), (''actionId'', JStr a)])]\<rparr>)\<rparr>)
         \<and> onReject S (state_of (onReject S pg a)) a =
           Returns (pg\<lparr>wsRef := Some (ws\<lparr>transmitted := transmitted ws @
              [S (JObj [(''type'', JStr ''reject''), (''actionId'', JStr a), (''reason'', JStr ''Not now'')]),
               S (JObj [(''type'', JStr ''reject''), (''actionId'', JStr a), (''reason'', JStr ''Not now'')])]\<rparr>)\<rparr>)"
  using assms
  by (simp add: onApprove_def onReject_def wsRef_send_def p2_send_def ws_send_def)

text \<open>
  Witness for C9: the page with an open channel that has transmitted nothing; action
  \<open>42\<close> is approved twice.
\<close>

theorem approve_twice_transmits_twice_witness:
  "wsRef open_page = Some open_socket \<and> ws_readyState open_socket = WS_OPEN
   \<and> onApprove sample_stringify (state_of (onApprove sample_stringify open_page ''42'')) ''42'' =
       Returns (open_page\<lparr>wsRef := Some (open_socket\<lparr>transmitted :=
          [''{\"type\":\"approve\",\"actionId\":\"42\"}'',
           ''{\"type\":\"approve\",\"actionId\":\"42\"}'']\<rparr>)\<rparr>)"
proof -
  have h1: "wsRef open_page = Some open_socket" by (simp add: open_page_def)
  have h2: "ws_readyState open_socket = WS_OPEN" by (simp add: open_socket_def)
  have h3: "transmitted open_socket = []" by (simp add: open_socket_def)
  show ?thesis
    using approve_twice_transmits_twice [OF h1 h2, of sample_stringify "''42''"] h1 h2 h3
    by (simp add: sample_stringify_def)
qed

section \<open>Starting the interactive session\<close>

text \<open>
  \<open>onStart\<close> does not always return when the backend answers 200: a session id with a
  \<open>#\<close> makes the socket constructor throw, after the session id was queued and before
  the chat is touched.
\<close>

lemma onStart_refused_url:
  "onStart sample_parse sample_stringify sample_ToString fragment_backend sample_location fresh_page =
     Throws SyntaxError
       (fresh_page\<lparr>sessionId := setState (sessionId fresh_page) (Value (Some (JStr ''s#1'')))\<rparr>)"
  by (simp add: onStart_def p2CreateSession_def fragment_backend_def respond_def ok_def
      response_json_def sample_parse_def frame_step0_def frame_step1_def frame_output_def
      frame_metrics_def p2OpenWS_def new_WebSocket_def sample_location_def)

text \<open>
  C10. When \<open>onStart\<close> returns, on a page whose chat hook can be rendered (no queued
  updater throws), the next render of the chat log gives exactly one message, the
  assistant greeting; the rendered log and every update queued before, inbound messages
  appended included, are gone.
\<close>

theorem onStart_resets_chat:
  assumes "onStart P S T fetch loc pg = Returns pg'"
    and "process_queue (pending (chat pg)) (current (chat pg)) = Inr c"
  shows "\<exists>session_id. render_hook (chat pg') = Inr (useState [greeting T session_id])"
  using assms
  by (auto simp: onStart_def setState_def render_hook_def useState_def process_queue_append
      split: sum.splits)

text \<open>
  Witness for C10: the page shows an older chat line and has an inbound message queued;
  the backend answers 200 with the session id \<open>s1\<close>.
\<close>

theorem onStart_resets_chat_witness:
  "thrown (onStart sample_parse sample_stringify sample_ToString
      session_backend sample_location busy_page) = None
   \<and> process_queue (pending (chat busy_page)) (current (chat busy_page)) =
       Inr [JObj [(''role'', JStr ''user''), (''text'', JStr ''old'')],
            JObj [(''role'', JStr ''assistant''), (''text'', JStr ''hi'')]]
   \<and> render_hook (chat (state_of (onStart sample_parse sample_stringify sample_ToString
      session_backend sample_location busy_page))) =
       Inr (useState [JObj [(''role'', JStr ''assistant''),
                            (''text'', JStr ''Session s1 ready. Tell me what to scaffold.'')]])"
proof -
  let ?r = "onStart sample_parse sample_stringify sample_ToString
      session_backend sample_location busy_page"
  have v: "p2CreateSession sample_parse sample_stringify session_backend
      (JObj [(''appName'', JStr (current (appName busy_page))),
             (''description'', JStr (current (desc busy_page)))]) =
      Inr (JObj [(''session_id'', JStr ''s1'')])"
    by (simp add: p2CreateSession_def session_backend_def respond_def ok_def response_json_def
        sample_parse_def frame_step0_def frame_step1_def frame_output_def frame_metrics_def)
  have w: "p2OpenWS sample_location ''s1'' = Inr connecting_socket"
    by (simp add: p2OpenWS_def new_WebSocket_def sample_location_def connecting_socket_def)
  have t: "thrown ?r = None"
    by (simp add: onStart_def v w)
  then have h1: "?r = Returns (state_of ?r)"
    by (cases ?r) simp_all
  have h2: "process_queue (pending (chat busy_page)) (current (chat busy_page)) =
       Inr [JObj [(''role'', JStr ''user''), (''text'', JStr ''old'')],
            JObj [(''role'', JStr ''assistant''), (''text'', JStr ''hi'')]]"
    by (simp add: busy_page_def setState_def useState_def)
  have g: "render_hook (chat (state_of ?r)) =
       Inr (useState [greeting sample_ToString (Some (JStr ''s1''))])"
    using onStart_resets_chat [OF h1 h2]
    by (simp add: onStart_def v w setState_def render_hook_def useState_def process_queue_append h2)
  show ?thesis
    using t h2 g by (simp add: greeting_def)
qed

end
